theory Spec2Isabelle
  imports Complex_Main
begin

section \<open>The DynamicPage control: data model\<close>

text \<open>
  The development embeds the behavioural core of \<^verbatim>\<open>sap/f/DynamicPage.js\<close>: the
  private flags set up in \<^verbatim>\<open>init\<close>, the two public properties the control mutates,
  the cached DOM references, the part of the DOM the control writes (style classes,
  scroll offsets) and the queue of zero-delay callbacks.

  Conventions of the embedding.
  \<^item> A JavaScript method that mutates \<^verbatim>\<open>this\<close> takes the state and returns the new one.
  \<^item> A method that can dereference \<^verbatim>\<open>undefined\<close> or \<^verbatim>\<open>null\<close> returns an
    \<open>outcome\<close>: \<open>Return v s\<close> for a normal return, \<open>Throw s\<close> for the uncaught
    TypeError, where \<open>s\<close> is the state at the throw (assignments made before it stay).
  \<^item> Everything measured in the DOM (heights, widths, scroll height) is read through
    the environment's \<open>layout\<close>, a function of the current state, so a measurement made
    after a mutation may differ from one made before it. An element that is not rendered
    measures 0 (jQuery's \<^verbatim>\<open>outerHeight()\<close> gives \<^verbatim>\<open>null\<close> there, which \<^verbatim>\<open>|| 0\<close> and
    \<^verbatim>\<open>+\<close> both turn into 0).
  \<^item> The flags \<^verbatim>\<open>allowInnerDiv\<close> and \<^verbatim>\<open>allowCustomScroll\<close> are never initialised by
    the source and only ever compared with \<^verbatim>\<open>=== true\<close>; \<^verbatim>\<open>undefined\<close> is modelled
    as \<open>False\<close>.
  \<^item> The hidden scroll bar aggregation is created on first access with scroll position
    0; the model keeps its position, content size and hidden class from the start.
  \<^item> Calls into the header control that only notify it (pin button, ARIA state, focus)
    change nothing of the page; the model keeps only whether the call can be made, that
    is, whether the header is there. A style class is written to the header's DOM only
    when that DOM exists (jQuery does nothing on an empty set). The footer, the resize
    handler registrations and the renderer are left out.
\<close>

record title_control =
  expandedContent_exists :: bool
  snappedContent_exists :: bool
  showExpandContent :: bool
  showSnapContent :: bool

datatype level = Debug | Warning

datatype message =
    Aborted_snapping_header_is_pinned
  | Snapped_header
  | Couldnt_snap_header_no_title
  | Expand_header
  | Couldnt_expand_header_no_title
  | Header_toggle_aborted_header_is_pinned
  | Always_expanded_or_pinned_title_area_height int
  | Header_snapped_title_height int
  | Snapped_mode_title_height int
  | Couldnt_expand_header_not_enough_space
  | Couldnt_snap_header_not_enough_content

datatype task =
    Call_overrideHeaderAlwaysExpanded
  | Call_updateScrollBarOffset
  | Call_updateFitContainer
  | Call_updateScrollBar

datatype media = INVISIBLE | PHONE | TABLET | DESKTOP

record dp =
  getHeaderAlwaysExpanded :: bool
  getHeaderExpanded :: bool
  invalidated :: bool
  getTitle :: "title_control option"
  header_exists :: bool
  bPinned :: bool
  bHeaderInTitleArea :: bool
  bExpandingWithAClick :: bool
  headerBiggerThanAllowedHeight :: bool
  allowInnerDiv :: bool
  allowCustomScroll :: bool
  bAlreadyAttachedTitlePressHandler :: bool
  bAlreadyAttachedPinPressHandler :: bool
  wrapper_exists :: bool
  titleArea_exists :: bool
  contentFitContainer_exists :: bool
  headerDom_exists :: bool
  scrollHandlerBound :: bool
  wrapperScrollTop :: int
  titleSnappedClass :: bool
  headerHiddenClass :: bool
  withScrollClass :: bool
  fitContainerClass :: bool
  titleAreaScrollBarOffset :: bool
  mediaClass :: "media option"
  scrollBarPosition :: int
  scrollBarContentSize :: int
  scrollBarHidden :: bool
  delayedCalls :: "task list"
  sap_log :: "(level \<times> message) list"

record geometry =
  titleOuterHeight :: int
  headerOuterHeight :: int
  ownOuterHeight :: int
  ownOuterWidth :: int
  titleAreaOuterHeight :: int
  wrapperScrollHeight :: int
  wrapperRectHeight :: real

record env =
  desktop :: bool
  phone :: bool
  layout :: "dp \<Rightarrow> geometry"

datatype 'a outcome = Return 'a dp | Throw dp

fun final :: "'a outcome \<Rightarrow> dp" where
  "final (Return v s) = s"
| "final (Throw s) = s"

fun returns :: "'a outcome \<Rightarrow> bool" where
  "returns (Return v s) = True"
| "returns (Throw s) = False"

definition and_then :: "'a outcome \<Rightarrow> ('a \<Rightarrow> dp \<Rightarrow> 'b outcome) \<Rightarrow> 'b outcome" where
  "and_then m f = (case m of Return v s \<Rightarrow> f v s | Throw s \<Rightarrow> Throw s)"

definition jQuery_sap_log :: "level \<Rightarrow> message \<Rightarrow> dp \<Rightarrow> dp" where
  "jQuery_sap_log l m s = s\<lparr>sap_log := sap_log s @ [(l, m)]\<rparr>"

definition jQuery_sap_delayedCall :: "task \<Rightarrow> dp \<Rightarrow> dp" where
  "jQuery_sap_delayedCall t s = s\<lparr>delayedCalls := delayedCalls s @ [t]\<rparr>"

definition HEADER_MAX_ALLOWED_PINNED_PERCENTAGE :: real where
  "HEADER_MAX_ALLOWED_PINNED_PERCENTAGE = 0.6"

definition HEADER_MAX_ALLOWED_NON_SROLLABLE_PERCENTAGE :: real where
  "HEADER_MAX_ALLOWED_NON_SROLLABLE_PERCENTAGE = 0.6"

definition BREAK_POINTS_TABLET :: int where
  "BREAK_POINTS_TABLET = 1024"

definition BREAK_POINTS_PHONE :: int where
  "BREAK_POINTS_PHONE = 600"

section \<open>Lifecycle and public setters\<close>

text \<open>
  The state of a freshly constructed control: the property defaults of the metadata, the
  aggregations given to the constructor, and the four flags assigned by \<^verbatim>\<open>init\<close>.
\<close>

definition init :: "title_control option \<Rightarrow> bool \<Rightarrow> dp" where
  "init t h =
     \<lparr>getHeaderAlwaysExpanded = False, getHeaderExpanded = True, invalidated = False,
      getTitle = t, header_exists = h,
      bPinned = False, bHeaderInTitleArea = False, bExpandingWithAClick = False,
      headerBiggerThanAllowedHeight = False,
      allowInnerDiv = False, allowCustomScroll = False,
      bAlreadyAttachedTitlePressHandler = False, bAlreadyAttachedPinPressHandler = False,
      wrapper_exists = False, titleArea_exists = False, contentFitContainer_exists = False,
      headerDom_exists = False,
      scrollHandlerBound = False, wrapperScrollTop = 0,
      titleSnappedClass = False, headerHiddenClass = False, withScrollClass = False,
      fitContainerClass = False, titleAreaScrollBarOffset = False, mediaClass = None,
      scrollBarPosition = 0, scrollBarContentSize = 0, scrollBarHidden = False,
      delayedCalls = [], sap_log = []\<rparr>"

definition headerAlwaysExpanded :: "dp \<Rightarrow> bool" where
  "headerAlwaysExpanded s \<longleftrightarrow> getHeaderAlwaysExpanded s \<and> \<not> headerBiggerThanAllowedHeight s"

definition setHeaderAlwaysExpanded :: "bool \<Rightarrow> dp \<Rightarrow> dp" where
  "setHeaderAlwaysExpanded bHeaderAlwaysExpanded s =
     (let s1 = s\<lparr>getHeaderAlwaysExpanded := bHeaderAlwaysExpanded,
                  invalidated := (invalidated s \<or> getHeaderAlwaysExpanded s \<noteq> bHeaderAlwaysExpanded)\<rparr>
      in if bHeaderAlwaysExpanded then s1\<lparr>getHeaderExpanded := True\<rparr> else s1)"

section \<open>Geometry queries\<close>

definition getHeight_title :: "env \<Rightarrow> dp \<Rightarrow> int" where
  "getHeight_title e s = (case getTitle s of None \<Rightarrow> 0 | Some t \<Rightarrow> titleOuterHeight (layout e s))"

definition getTitleHeight :: "env \<Rightarrow> dp \<Rightarrow> int" where
  "getTitleHeight e s = getHeight_title e s"

definition getHeaderHeight :: "env \<Rightarrow> dp \<Rightarrow> int" where
  "getHeaderHeight e s = (if header_exists s then headerOuterHeight (layout e s) else 0)"

definition getOwnHeight :: "env \<Rightarrow> dp \<Rightarrow> int" where
  "getOwnHeight e s = ownOuterHeight (layout e s)"

definition getWidth_own :: "env \<Rightarrow> dp \<Rightarrow> int" where
  "getWidth_own e s = ownOuterWidth (layout e s)"

definition getTitleAreaHeight :: "env \<Rightarrow> dp \<Rightarrow> int" where
  "getTitleAreaHeight e s = (if titleArea_exists s then titleAreaOuterHeight (layout e s) else 0)"

definition getSnappingHeight :: "env \<Rightarrow> dp \<Rightarrow> int" where
  "getSnappingHeight e s =
     (if getHeaderHeight e s \<noteq> 0 then getHeaderHeight e s else getTitleHeight e s)"

definition getMaxScrollPosition :: "env \<Rightarrow> dp \<Rightarrow> int" where
  "getMaxScrollPosition e s =
     (if wrapper_exists s
      then wrapperScrollHeight (layout e s) - \<lceil>wrapperRectHeight (layout e s)\<rceil>
      else 0)"

definition needsVerticalScrollBar :: "env \<Rightarrow> dp \<Rightarrow> bool" where
  "needsVerticalScrollBar e s \<longleftrightarrow> getMaxScrollPosition e s > 0"

definition canSnapHeaderOnScroll :: "env \<Rightarrow> dp \<Rightarrow> bool" where
  "canSnapHeaderOnScroll e s \<longleftrightarrow> getMaxScrollPosition e s > getSnappingHeight e s + 1"

definition getEntireHeaderHeight :: "env \<Rightarrow> dp \<Rightarrow> int" where
  "getEntireHeaderHeight e s =
     (let iTitleHeight = (case getTitle s of None \<Rightarrow> 0 | Some t \<Rightarrow> titleOuterHeight (layout e s));
          iHeaderHeight = (if header_exists s then headerOuterHeight (layout e s) else 0)
      in iTitleHeight + iHeaderHeight)"

definition headerBiggerThanAllowedToExpandWithACommand :: "env \<Rightarrow> dp \<Rightarrow> bool" where
  "headerBiggerThanAllowedToExpandWithACommand e s \<longleftrightarrow>
     getEntireHeaderHeight e s > getOwnHeight e s"

definition headerBiggerThanAllowedToPin :: "env \<Rightarrow> int option \<Rightarrow> dp \<Rightarrow> bool" where
  "headerBiggerThanAllowedToPin e iControlHeight s \<longleftrightarrow>
     (let h = (case iControlHeight of None \<Rightarrow> getOwnHeight e s | Some n \<Rightarrow> n)
      in real_of_int (getEntireHeaderHeight e s) > HEADER_MAX_ALLOWED_PINNED_PERCENTAGE * real_of_int h)"

definition headerBiggerThanAllowedToBeFixed :: "env \<Rightarrow> dp \<Rightarrow> bool" where
  "headerBiggerThanAllowedToBeFixed e s \<longleftrightarrow>
     (let iControlHeight = getOwnHeight e s
      in real_of_int (getEntireHeaderHeight e s)
           > HEADER_MAX_ALLOWED_NON_SROLLABLE_PERCENTAGE * real_of_int iControlHeight)"

definition shouldOverrideHeaderAlwaysExpanded :: "env \<Rightarrow> dp \<Rightarrow> bool" where
  "shouldOverrideHeaderAlwaysExpanded e s \<longleftrightarrow>
     \<not> desktop e \<and> headerBiggerThanAllowedToBeFixed e s \<and> headerAlwaysExpanded s"

section \<open>Scroll position\<close>

text \<open>
  On a desktop the position is the scroll bar's; elsewhere it is read from the cached
  wrapper, and \<^verbatim>\<open>this.$wrapper.scrollTop()\<close> is a TypeError while the wrapper is not
  cached: \<open>None\<close>.
\<close>

definition getScrollPosition :: "env \<Rightarrow> dp \<Rightarrow> int option" where
  "getScrollPosition e s =
     (if desktop e then Some (scrollBarPosition s)
      else if wrapper_exists s then Some (wrapperScrollTop s) else None)"

definition setScrollPosition :: "env \<Rightarrow> int \<Rightarrow> dp \<Rightarrow> dp" where
  "setScrollPosition e iNewScrollPosition s =
     (if wrapper_exists s
      then (let s1 = s\<lparr>wrapperScrollTop := iNewScrollPosition\<rparr>
            in if desktop e then s1\<lparr>scrollBarPosition := iNewScrollPosition\<rparr> else s1)
      else s)"

definition scrollToSnapHeader :: "env \<Rightarrow> dp \<Rightarrow> dp" where
  "scrollToSnapHeader e s = setScrollPosition e (getSnappingHeight e s + 1) s"

text \<open>
  The three predicates below are conjunctions evaluated left to right with short
  circuit, so the scroll position is read (and can throw) only when the conjuncts before
  it hold.
\<close>

definition shouldSnap :: "env \<Rightarrow> dp \<Rightarrow> bool option" where
  "shouldSnap e s =
     (if headerAlwaysExpanded s then Some False
      else case getScrollPosition e s of
             None \<Rightarrow> None
           | Some p \<Rightarrow> Some (p > getSnappingHeight e s \<and> getHeaderExpanded s \<and> \<not> bPinned s))"

definition shouldExpand :: "env \<Rightarrow> dp \<Rightarrow> bool option" where
  "shouldExpand e s =
     (if headerAlwaysExpanded s then Some False
      else case getScrollPosition e s of
             None \<Rightarrow> None
           | Some p \<Rightarrow> Some (p < getSnappingHeight e s \<and> \<not> getHeaderExpanded s \<and> \<not> bPinned s))"

definition headerScrolledOut :: "env \<Rightarrow> dp \<Rightarrow> bool option" where
  "headerScrolledOut e s =
     (case getScrollPosition e s of
        None \<Rightarrow> None
      | Some p \<Rightarrow> Some (p > getSnappingHeight e s))"

definition headerSnapAllowed :: "dp \<Rightarrow> bool" where
  "headerSnapAllowed s \<longleftrightarrow> \<not> headerAlwaysExpanded s \<and> getHeaderExpanded s \<and> \<not> bPinned s"

section \<open>Snap, expand, pin\<close>

definition moveHeaderToContentArea :: "dp \<Rightarrow> dp" where
  "moveHeaderToContentArea s = (if header_exists s then s\<lparr>bHeaderInTitleArea := False\<rparr> else s)"

definition moveHeaderToTitleArea :: "dp \<Rightarrow> dp" where
  "moveHeaderToTitleArea s = (if header_exists s then s\<lparr>bHeaderInTitleArea := True\<rparr> else s)"

text \<open>
  Modelled from the spec: \<^verbatim>\<open>_setShowExpandContent\<close> and \<^verbatim>\<open>_setShowSnapContent\<close> are
  methods of the title control, whose class is not among the sources; the specification
  describes them as showing and hiding the expanded-content and the snapped-content
  sub-region of the title.
\<close>

definition setShowExpandContent :: "bool \<Rightarrow> title_control \<Rightarrow> title_control" where
  "setShowExpandContent b t = t\<lparr>showExpandContent := b\<rparr>"

definition setShowSnapContent :: "bool \<Rightarrow> title_control \<Rightarrow> title_control" where
  "setShowSnapContent b t = t\<lparr>showSnapContent := b\<rparr>"

definition snapHeader :: "bool \<Rightarrow> dp \<Rightarrow> dp" where
  "snapHeader bAppendHeaderToContent s =
     (if bPinned s then jQuery_sap_log Debug Aborted_snapping_header_is_pinned s
      else
        let s1 = jQuery_sap_log Debug Snapped_header s;
            s2 = (case getTitle s1 of
                    None \<Rightarrow> s1
                  | Some t \<Rightarrow>
                      let t1 = (if expandedContent_exists t then setShowExpandContent False t else t);
                          t2 = (if snappedContent_exists t1 then setShowSnapContent True t1 else t1);
                          s' = s1\<lparr>getTitle := Some t2\<rparr>
                      in if bAppendHeaderToContent then moveHeaderToContentArea s' else s')
        in if \<not> titleArea_exists s2 then jQuery_sap_log Warning Couldnt_snap_header_no_title s2
           else s2\<lparr>getHeaderExpanded := False, titleSnappedClass := True\<rparr>)"

definition expandHeader :: "bool \<Rightarrow> dp \<Rightarrow> dp" where
  "expandHeader bAppendHeaderToTitle s =
     (let s1 = jQuery_sap_log Debug Expand_header s;
          s2 = (case getTitle s1 of
                  None \<Rightarrow> s1
                | Some t \<Rightarrow>
                    let t1 = (if expandedContent_exists t then setShowExpandContent True t else t);
                        t2 = (if snappedContent_exists t1 then setShowSnapContent False t1 else t1);
                        s' = s1\<lparr>getTitle := Some t2\<rparr>
                    in if bAppendHeaderToTitle then moveHeaderToTitleArea s' else s')
      in if \<not> titleArea_exists s2 then jQuery_sap_log Warning Couldnt_expand_header_no_title s2
         else s2\<lparr>getHeaderExpanded := True, titleSnappedClass := False\<rparr>)"

definition toggleHeader :: "env \<Rightarrow> dp \<Rightarrow> unit outcome" where
  "toggleHeader e s =
     (case shouldSnap e s of
        None \<Rightarrow> Throw s
      | Some True \<Rightarrow> Return () (snapHeader True s)
      | Some False \<Rightarrow>
          (case shouldExpand e s of
             None \<Rightarrow> Throw s
           | Some True \<Rightarrow> Return () (expandHeader False s)
           | Some False \<Rightarrow>
               if \<not> bPinned s \<and> bHeaderInTitleArea s then Return () (moveHeaderToContentArea s)
               else Return () s))"

definition unPin :: "dp \<Rightarrow> unit outcome" where
  "unPin s =
     (if bPinned s
      then (let s1 = s\<lparr>bPinned := False\<rparr>
            in if header_exists s1 then Return () s1 else Throw s1)
      else Return () s)"

definition restorePinButtonFocus :: "dp \<Rightarrow> unit outcome" where
  "restorePinButtonFocus s = (if header_exists s then Return () s else Throw s)"

section \<open>The scroll bar\<close>

text \<open>
  \<^verbatim>\<open>_measureScrollBarOffsetHeight\<close> snaps the header to measure the title and expands it
  again only if \<^verbatim>\<open>_shouldExpand()\<close> holds afterwards.
\<close>

definition measureScrollBarOffsetHeight :: "env \<Rightarrow> dp \<Rightarrow> int outcome" where
  "measureScrollBarOffsetHeight e s =
     (let bSnapped = \<not> getHeaderExpanded s;
          bHeaderAlwaysExpanded = headerAlwaysExpanded s
      in if bHeaderAlwaysExpanded \<or> bPinned s
         then (let iHeight = getTitleAreaHeight e s
               in Return iHeight
                    (jQuery_sap_log Debug (Always_expanded_or_pinned_title_area_height iHeight) s))
         else if bSnapped \<or> getTitle s = None \<or> \<not> canSnapHeaderOnScroll e s
         then (let iHeight = getTitleHeight e s
               in Return iHeight (jQuery_sap_log Debug (Header_snapped_title_height iHeight) s))
         else
           (let s1 = snapHeader True s;
                iHeight = getTitleHeight e s1
            in case shouldExpand e s1 of
                 None \<Rightarrow> Throw s1
               | Some b \<Rightarrow>
                   (let s2 = (if b \<and> \<not> bSnapped then expandHeader False s1 else s1)
                    in Return iHeight
                         (jQuery_sap_log Debug (Snapped_mode_title_height iHeight) s2))))"

definition updateScrollBar :: "env \<Rightarrow> dp \<Rightarrow> unit outcome" where
  "updateScrollBar e s =
     (if \<not> desktop e \<or> \<not> wrapper_exists s then Return () s
      else
        let bScrollBarNeeded = needsVerticalScrollBar e s
        in and_then (measureScrollBarOffsetHeight e s)
             (\<lambda>iHeight s1.
                Return ()
                  (jQuery_sap_delayedCall Call_updateFitContainer
                    (jQuery_sap_delayedCall Call_updateScrollBarOffset
                      (s1\<lparr>scrollBarContentSize := iHeight + wrapperScrollHeight (layout e s1),
                          scrollBarHidden := \<not> bScrollBarNeeded,
                          withScrollClass := bScrollBarNeeded\<rparr>)))))"

definition updateFitContainer :: "env \<Rightarrow> dp \<Rightarrow> unit outcome" where
  "updateFitContainer e s =
     (if contentFitContainer_exists s
      then Return () (s\<lparr>fitContainerClass := \<not> needsVerticalScrollBar e s\<rparr>)
      else Throw s)"

definition updateScrollBarOffset :: "env \<Rightarrow> dp \<Rightarrow> unit outcome" where
  "updateScrollBarOffset e s =
     (if titleArea_exists s
      then Return () (s\<lparr>titleAreaScrollBarOffset := needsVerticalScrollBar e s\<rparr>)
      else Throw s)"

definition updateMedia :: "int \<Rightarrow> dp \<Rightarrow> dp" where
  "updateMedia iWidth s =
     (if iWidth = 0 then s\<lparr>mediaClass := Some INVISIBLE\<rparr>
      else if iWidth \<le> BREAK_POINTS_PHONE then s\<lparr>mediaClass := Some PHONE\<rparr>
      else if iWidth \<le> BREAK_POINTS_TABLET then s\<lparr>mediaClass := Some TABLET\<rparr>
      else s\<lparr>mediaClass := Some DESKTOP\<rparr>)"

definition toggleHeaderVisibility :: "env \<Rightarrow> bool \<Rightarrow> dp \<Rightarrow> unit outcome" where
  "toggleHeaderVisibility e bShow s =
     (let bExpanded = getHeaderExpanded s
      in if bPinned s
         then Return () (jQuery_sap_log Debug Header_toggle_aborted_header_is_pinned s)
         else
           let s1 = (case getTitle s of
                       None \<Rightarrow> s
                     | Some t \<Rightarrow>
                         s\<lparr>getTitle :=
                             Some (setShowSnapContent (\<not> bExpanded) (setShowExpandContent bExpanded t))\<rparr>)
           in if header_exists s1
              then updateScrollBar e
                     (if headerDom_exists s1 then s1\<lparr>headerHiddenClass := \<not> bShow\<rparr> else s1)
              else Return () s1)"

definition overrideHeaderAlwaysExpanded :: "env \<Rightarrow> dp \<Rightarrow> unit outcome" where
  "overrideHeaderAlwaysExpanded e s =
     (if \<not> shouldOverrideHeaderAlwaysExpanded e s
      then Return () (s\<lparr>headerBiggerThanAllowedHeight := False\<rparr>)
      else updateScrollBar e (moveHeaderToContentArea (s\<lparr>headerBiggerThanAllowedHeight := True\<rparr>)))"

definition pin :: "env \<Rightarrow> dp \<Rightarrow> unit outcome" where
  "pin e s =
     (if \<not> bPinned s
      then and_then (updateScrollBar e (moveHeaderToTitleArea (s\<lparr>bPinned := True\<rparr>)))
             (\<lambda>u s1. if header_exists s1 then Return () s1 else Throw s1)
      else Return () s)"

section \<open>Event handlers\<close>

definition titleExpandCollapseWhenAllowed :: "env \<Rightarrow> dp \<Rightarrow> unit outcome" where
  "titleExpandCollapseWhenAllowed e s =
     (if headerBiggerThanAllowedToExpandWithACommand e s
      then Return () (jQuery_sap_log Warning Couldnt_expand_header_not_enough_space s)
      else if headerAlwaysExpanded s \<or> \<not> needsVerticalScrollBar e s
      then (if \<not> getHeaderExpanded s
            then toggleHeaderVisibility e True (expandHeader False s)
            else toggleHeaderVisibility e False (snapHeader False s))
      else if \<not> getHeaderExpanded s
      then Return () (expandHeader True (s\<lparr>bExpandingWithAClick := True\<rparr>))
      else if headerSnapAllowed s
      then (case headerScrolledOut e s of
              None \<Rightarrow> Throw s
            | Some True \<Rightarrow> Return () (snapHeader True s)
            | Some False \<Rightarrow>
                if canSnapHeaderOnScroll e s then Return () (scrollToSnapHeader e s)
                else Return () (jQuery_sap_log Warning Couldnt_snap_header_not_enough_content s))
      else Return () s)"

definition setHeaderExpanded :: "env \<Rightarrow> bool \<Rightarrow> dp \<Rightarrow> unit outcome" where
  "setHeaderExpanded e bHeaderExpanded s =
     (if getHeaderExpanded s = bHeaderExpanded then Return () s
      else titleExpandCollapseWhenAllowed e s)"

definition onPinUnpinButtonPress :: "env \<Rightarrow> dp \<Rightarrow> unit outcome" where
  "onPinUnpinButtonPress e s =
     (if bPinned s then unPin s
      else and_then (pin e s) (\<lambda>u s1. restorePinButtonFocus s1))"

definition onResize :: "env \<Rightarrow> int \<Rightarrow> int \<Rightarrow> dp \<Rightarrow> unit outcome" where
  "onResize e size_height size_width s =
     and_then
       (if \<not> headerAlwaysExpanded s \<and> header_exists s
        then (if headerBiggerThanAllowedToPin e (Some size_height) s \<or> phone e
              then unPin s else Return () s)
        else Return () s)
       (\<lambda>u s1. and_then (updateScrollBar e s1)
                  (\<lambda>u s2. Return () (updateMedia size_width s2)))"

definition onChildControlsHeightChange :: "env \<Rightarrow> bool \<Rightarrow> dp \<Rightarrow> unit outcome" where
  "onChildControlsHeightChange e height_changed s =
     and_then
       (if height_changed \<and> \<not> bExpandingWithAClick s then updateScrollBar e s else Return () s)
       (\<lambda>u s1. Return () (s1\<lparr>bExpandingWithAClick := False\<rparr>))"

definition onChildControlAfterRendering :: "dp \<Rightarrow> dp" where
  "onChildControlAfterRendering s = jQuery_sap_delayedCall Call_updateScrollBar s"

definition onWrapperScroll :: "env \<Rightarrow> int \<Rightarrow> dp \<Rightarrow> unit outcome" where
  "onWrapperScroll e target_scrollTop s =
     and_then
       (if \<not> desktop e \<or> \<not> bExpandingWithAClick s then toggleHeader e s else Return () s)
       (\<lambda>u s1.
          if desktop e
          then (if allowCustomScroll s1 \<and> target_scrollTop > 0
                then Return () (s1\<lparr>allowCustomScroll := False\<rparr>)
                else
                  let s2 = s1\<lparr>allowInnerDiv := True, scrollBarPosition := target_scrollTop\<rparr>
                  in Return () (s2\<lparr>withScrollClass := needsVerticalScrollBar e s2\<rparr>))
          else Return () s1)"

definition onScrollBarScroll :: "env \<Rightarrow> dp \<Rightarrow> unit outcome" where
  "onScrollBarScroll e s =
     and_then (toggleHeader e s)
       (\<lambda>u s1.
          if allowInnerDiv s1 then Return () (s1\<lparr>allowInnerDiv := False\<rparr>)
          else
            let s2 = s1\<lparr>allowCustomScroll := True\<rparr>
            in if wrapper_exists s2
               then Return () (s2\<lparr>wrapperScrollTop := scrollBarPosition s2\<rparr>)
               else Throw s2)"

section \<open>Rendering hooks\<close>

definition attachPinPressHandler :: "dp \<Rightarrow> dp" where
  "attachPinPressHandler s =
     (if header_exists s \<and> \<not> bAlreadyAttachedPinPressHandler s
      then s\<lparr>bAlreadyAttachedPinPressHandler := True\<rparr> else s)"

definition attachTitlePressHandler :: "dp \<Rightarrow> dp" where
  "attachTitlePressHandler s =
     (if getTitle s \<noteq> None \<and> \<not> bAlreadyAttachedTitlePressHandler s
      then s\<lparr>bAlreadyAttachedTitlePressHandler := True\<rparr> else s)"

definition detachScrollHandler :: "dp \<Rightarrow> dp" where
  "detachScrollHandler s = (if wrapper_exists s then s\<lparr>scrollHandlerBound := False\<rparr> else s)"

definition attachScrollHandler :: "dp \<Rightarrow> unit outcome" where
  "attachScrollHandler s =
     (if wrapper_exists s then Return () (s\<lparr>scrollHandlerBound := True\<rparr>) else Throw s)"

definition cacheDomElements :: "dp \<Rightarrow> dp" where
  "cacheDomElements s =
     s\<lparr>wrapper_exists := True, contentFitContainer_exists := True, titleArea_exists := True\<rparr>"

definition onBeforeRendering :: "dp \<Rightarrow> dp" where
  "onBeforeRendering s =
     detachScrollHandler
       (attachTitlePressHandler
         (if \<not> headerAlwaysExpanded s then attachPinPressHandler s else s))"

definition onAfterRendering :: "env \<Rightarrow> dp \<Rightarrow> unit outcome" where
  "onAfterRendering e s =
     (let bHeaderAlwaysExpanded = headerAlwaysExpanded s;
          s1 = (if bHeaderAlwaysExpanded \<and> header_exists s
                then jQuery_sap_delayedCall Call_overrideHeaderAlwaysExpanded s else s);
          s2 = cacheDomElements s1;
          s3 = updateMedia (getWidth_own e s2) s2
      in and_then (attachScrollHandler s3) (\<lambda>u s4. updateScrollBar e s4))"

section \<open>The environment: events delivered to the control\<close>

text \<open>
  The framework and the browser call the control: the application through the public
  setters, the render manager through the two rendering hooks, the timer queue through
  the callbacks registered with \<^verbatim>\<open>delayedCall(0, ...)\<close> (first in, first out), the
  title and the header through the press events (once the handler is attached), the
  wrapper and the scroll bar through their scroll events, and the resize handler. A
  scroll event carries the new offset, which the source has already received when
  the handler runs. Between the two rendering hooks the render manager writes the DOM
  of the control, the header's included when there is a header. An exception a handler
  throws is caught by the caller; the state reached at the throw stays.
\<close>

datatype event =
    Ev_setHeaderExpanded bool
  | Ev_setHeaderAlwaysExpanded bool
  | Ev_rendering
  | Ev_delayedCall
  | Ev_titlePress
  | Ev_pinUnpinPress
  | Ev_wrapperScroll int
  | Ev_scrollBarScroll int
  | Ev_resize int int
  | Ev_childControlsHeightChange bool
  | Ev_childControlAfterRendering

definition run_task :: "env \<Rightarrow> task \<Rightarrow> dp \<Rightarrow> unit outcome" where
  "run_task e t s =
     (case t of
        Call_overrideHeaderAlwaysExpanded \<Rightarrow> overrideHeaderAlwaysExpanded e s
      | Call_updateScrollBarOffset \<Rightarrow> updateScrollBarOffset e s
      | Call_updateFitContainer \<Rightarrow> updateFitContainer e s
      | Call_updateScrollBar \<Rightarrow> updateScrollBar e s)"

definition dispatch :: "env \<Rightarrow> event \<Rightarrow> dp \<Rightarrow> unit outcome" where
  "dispatch e ev s =
     (case ev of
        Ev_setHeaderExpanded b \<Rightarrow> setHeaderExpanded e b s
      | Ev_setHeaderAlwaysExpanded b \<Rightarrow> Return () (setHeaderAlwaysExpanded b s)
      | Ev_rendering \<Rightarrow>
          onAfterRendering e
            ((onBeforeRendering s)\<lparr>invalidated := False, headerDom_exists := header_exists s\<rparr>)
      | Ev_delayedCall \<Rightarrow>
          (case delayedCalls s of
             [] \<Rightarrow> Return () s
           | t # ts \<Rightarrow> run_task e t (s\<lparr>delayedCalls := ts\<rparr>))
      | Ev_titlePress \<Rightarrow>
          if bAlreadyAttachedTitlePressHandler s \<and> getTitle s \<noteq> None
          then titleExpandCollapseWhenAllowed e s else Return () s
      | Ev_pinUnpinPress \<Rightarrow>
          if bAlreadyAttachedPinPressHandler s \<and> header_exists s
          then onPinUnpinButtonPress e s else Return () s
      | Ev_wrapperScroll n \<Rightarrow>
          if scrollHandlerBound s \<and> wrapper_exists s
          then onWrapperScroll e n (s\<lparr>wrapperScrollTop := n\<rparr>) else Return () s
      | Ev_scrollBarScroll n \<Rightarrow>
          if desktop e \<and> wrapper_exists s
          then onScrollBarScroll e (s\<lparr>scrollBarPosition := n\<rparr>) else Return () s
      | Ev_resize h w \<Rightarrow>
          if wrapper_exists s then onResize e h w s else Return () s
      | Ev_childControlsHeightChange b \<Rightarrow>
          if wrapper_exists s then onChildControlsHeightChange e b s else Return () s
      | Ev_childControlAfterRendering \<Rightarrow>
          if wrapper_exists s then Return () (onChildControlAfterRendering s) else Return () s)"

definition fire :: "env \<Rightarrow> event \<Rightarrow> dp \<Rightarrow> dp" where
  "fire e ev s = final (dispatch e ev s)"

fun run :: "env \<Rightarrow> event list \<Rightarrow> dp \<Rightarrow> dp" where
  "run e [] s = s"
| "run e (ev # evs) s = run e evs (fire e ev s)"

section \<open>Concrete scenarios\<close>

text \<open>
  A page 400 pixels high with a title of 48 and a header of 100 pixels over 1000 pixels
  of content; before the first rendering nothing is in the DOM and every measurement
  is 0.
\<close>

definition unrendered :: geometry where
  "unrendered = \<lparr>titleOuterHeight = 0, headerOuterHeight = 0, ownOuterHeight = 0,
                  ownOuterWidth = 0, titleAreaOuterHeight = 0,
                  wrapperScrollHeight = 0, wrapperRectHeight = 0\<rparr>"

definition page_geometry :: geometry where
  "page_geometry = \<lparr>titleOuterHeight = 48, headerOuterHeight = 100, ownOuterHeight = 400,
                     ownOuterWidth = 800, titleAreaOuterHeight = 148,
                     wrapperScrollHeight = 1000, wrapperRectHeight = 252\<rparr>"

definition once_rendered :: "geometry \<Rightarrow> dp \<Rightarrow> geometry" where
  "once_rendered g s = (if wrapper_exists s then g else unrendered)"

definition desktop_env :: env where
  "desktop_env = \<lparr>desktop = True, phone = False, layout = once_rendered page_geometry\<rparr>"

definition tablet_env :: env where
  "tablet_env = \<lparr>desktop = False, phone = False, layout = once_rendered page_geometry\<rparr>"

text \<open>A wrapper whose content fits, with a fractional rendered height.\<close>

definition fractional_env :: env where
  "fractional_env =
     \<lparr>desktop = False, phone = False,
      layout = once_rendered
                 (page_geometry\<lparr>wrapperScrollHeight := 252, wrapperRectHeight := 252.4\<rparr>)\<rparr>"

definition plain_title :: title_control where
  "plain_title = \<lparr>expandedContent_exists = True, snappedContent_exists = True,
                   showExpandContent = True, showSnapContent = False\<rparr>"

text \<open>The same page with a header of 500 pixels, taller than the page itself.\<close>

definition tall_header_env :: env where
  "tall_header_env =
     \<lparr>desktop = True, phone = False,
      layout = once_rendered (page_geometry\<lparr>headerOuterHeight := 500\<rparr>)\<rparr>"

definition rendered_tall_state :: dp where
  "rendered_tall_state = run tall_header_env [Ev_rendering] (init (Some plain_title) True)"

text \<open>A rendered page on a tablet whose wrapper has been scrolled to offset 101.\<close>

definition scrolled_state :: dp where
  "scrolled_state =
     (run tablet_env [Ev_rendering] (init (Some plain_title) True))\<lparr>wrapperScrollTop := 101\<rparr>"

text \<open>
  A rendered page on a tablet, scrolled to offset 200 (which snaps the header) and then
  pinned through the pin button.
\<close>

definition pinned_snapped_state :: dp where
  "pinned_snapped_state =
     run tablet_env [Ev_rendering, Ev_wrapperScroll 200, Ev_pinUnpinPress]
       (init (Some plain_title) True)"

text \<open>A rendered page on a tablet, pinned while the header is expanded.\<close>

definition pinned_expanded_state :: dp where
  "pinned_expanded_state =
     run tablet_env [Ev_rendering, Ev_pinUnpinPress] (init (Some plain_title) True)"

text \<open>
  On a desktop: \<^verbatim>\<open>headerAlwaysExpanded\<close> is set, the page is rendered, the three
  callbacks registered by the rendering run, and the title is pressed.
\<close>

definition always_expanded_state :: dp where
  "always_expanded_state =
     run desktop_env [Ev_setHeaderAlwaysExpanded True, Ev_rendering] (init (Some plain_title) True)"

definition always_expanded_run :: "event list" where
  "always_expanded_run =
     [Ev_setHeaderAlwaysExpanded True, Ev_rendering, Ev_delayedCall, Ev_delayedCall,
      Ev_delayedCall, Ev_titlePress]"

text \<open>
  On a tablet with a header of 252 pixels (title and header together 300, more than 60
  percent of 400): \<^verbatim>\<open>headerAlwaysExpanded\<close> is set and the page is rendered twice before
  the timer queue runs, so two override checks are pending; \<open>overridden_state\<close> is the
  state after the first of them.
\<close>

definition tall_tablet_env :: env where
  "tall_tablet_env =
     \<lparr>desktop = False, phone = False,
      layout = once_rendered (page_geometry\<lparr>headerOuterHeight := 252\<rparr>)\<rparr>"

definition overridden_state :: dp where
  "overridden_state =
     run tall_tablet_env
       [Ev_setHeaderAlwaysExpanded True, Ev_rendering, Ev_rendering, Ev_delayedCall]
       (init (Some plain_title) True)"

text \<open>
  The scroll bar is dragged to 50 and back to 0; each time the wrapper echoes the new
  offset.
\<close>

definition echo_run :: "event list" where
  "echo_run = [Ev_rendering, Ev_scrollBarScroll 50, Ev_wrapperScroll 50,
               Ev_scrollBarScroll 0, Ev_wrapperScroll 0]"

text \<open>
  A rendered page on a desktop after the wrapper has been scrolled to 50 (which arms
  \<^verbatim>\<open>allowInnerDiv\<close>), and after the scroll bar has been dragged to 50 (which arms
  \<^verbatim>\<open>allowCustomScroll\<close>).
\<close>

definition armed_inner_state :: dp where
  "armed_inner_state =
     run desktop_env [Ev_rendering, Ev_wrapperScroll 50] (init (Some plain_title) True)"

definition armed_custom_state :: dp where
  "armed_custom_state =
     run desktop_env [Ev_rendering, Ev_scrollBarScroll 50] (init (Some plain_title) True)"

text \<open>A page with title and header that has not been rendered yet.\<close>

definition unrendered_state :: dp where
  "unrendered_state = init (Some plain_title) True"


section \<open>A relation for the override flag\<close>

text \<open>
  \<open>override_frame s s'\<close>: from \<open>s\<close> to \<open>s'\<close> the flag
  \<^verbatim>\<open>_headerBiggerThanAllowedHeight\<close> is as it was and no call of the override
  check has been added to the timer queue.
\<close>

definition override_frame :: "dp \<Rightarrow> dp \<Rightarrow> bool" where
  "override_frame s s' \<longleftrightarrow>
     headerBiggerThanAllowedHeight s' = headerBiggerThanAllowedHeight s
     \<and> (Call_overrideHeaderAlwaysExpanded \<in> set (delayedCalls s')
          \<longrightarrow> Call_overrideHeaderAlwaysExpanded \<in> set (delayedCalls s))"

section \<open>Warnings and the state before the first rendering\<close>

text \<open>The warnings a state has logged so far, in order.\<close>

definition warnings :: "dp \<Rightarrow> message list" where
  "warnings s = map snd (filter (\<lambda>x. fst x = Warning) (sap_log s))"


text \<open>
  \<open>quiet s s'\<close>: from \<open>s\<close> to \<open>s'\<close> no warning has been logged and the cached references
  to the wrapper and the title area are as they were. \<open>only_log_changed s s'\<close>: the two
  states differ at most in the log. \<open>before_first_rendering\<close> describes a control that
  has no DOM yet, \<open>dom_consistent\<close> a control that either has its title area cached or
  has no DOM yet.
\<close>

definition quiet :: "dp \<Rightarrow> dp \<Rightarrow> bool" where
  "quiet s s' \<longleftrightarrow>
     warnings s' = warnings s \<and> titleArea_exists s' = titleArea_exists s
     \<and> wrapper_exists s' = wrapper_exists s"




section \<open>Unfolding\<close>

lemmas rendering_defs =
  fire_def dispatch_def onBeforeRendering_def onAfterRendering_def headerAlwaysExpanded_def
  attachTitlePressHandler_def attachPinPressHandler_def detachScrollHandler_def
  cacheDomElements_def updateMedia_def getWidth_own_def attachScrollHandler_def and_then_def
  updateScrollBar_def BREAK_POINTS_PHONE_def BREAK_POINTS_TABLET_def once_rendered_def
  page_geometry_def unrendered_def jQuery_sap_delayedCall_def

lemmas query_defs =
  getHeight_title_def getTitleHeight_def getHeaderHeight_def getOwnHeight_def
  getTitleAreaHeight_def getSnappingHeight_def getMaxScrollPosition_def
  needsVerticalScrollBar_def canSnapHeaderOnScroll_def getEntireHeaderHeight_def
  headerBiggerThanAllowedToExpandWithACommand_def headerBiggerThanAllowedToPin_def
  headerBiggerThanAllowedToBeFixed_def shouldOverrideHeaderAlwaysExpanded_def
  getScrollPosition_def shouldSnap_def shouldExpand_def headerScrolledOut_def
  headerSnapAllowed_def HEADER_MAX_ALLOWED_PINNED_PERCENTAGE_def
  HEADER_MAX_ALLOWED_NON_SROLLABLE_PERCENTAGE_def

lemmas header_defs =
  moveHeaderToContentArea_def moveHeaderToTitleArea_def setShowExpandContent_def
  setShowSnapContent_def snapHeader_def expandHeader_def toggleHeader_def jQuery_sap_log_def
  unPin_def restorePinButtonFocus_def pin_def onPinUnpinButtonPress_def
  measureScrollBarOffsetHeight_def toggleHeaderVisibility_def

lemmas handler_defs =
  titleExpandCollapseWhenAllowed_def setHeaderExpanded_def onResize_def
  onChildControlsHeightChange_def onChildControlAfterRendering_def onWrapperScroll_def
  onScrollBarScroll_def overrideHeaderAlwaysExpanded_def updateFitContainer_def
  updateScrollBarOffset_def run_task_def setScrollPosition_def scrollToSnapHeader_def
  setHeaderAlwaysExpanded_def

lemmas all_defs = rendering_defs query_defs header_defs handler_defs

section \<open>What a pinned header allows\<close>

lemma toggleHeader_pinned: "bPinned s \<Longrightarrow> final (toggleHeader e s) = s"
  by (simp add: toggleHeader_def shouldSnap_def shouldExpand_def split: option.splits bool.splits)

lemma snapHeader_pinned:
  "bPinned s \<Longrightarrow>
     snapHeader b s = s\<lparr>sap_log := sap_log s @ [(Debug, Aborted_snapping_header_is_pinned)]\<rparr>"
  by (simp add: snapHeader_def jQuery_sap_log_def)

lemma expandHeader_expanded_mono:
  "getHeaderExpanded s \<Longrightarrow> getHeaderExpanded (expandHeader b s)"
  "titleSnappedClass (expandHeader b s) \<Longrightarrow> titleSnappedClass s"
  "bPinned (expandHeader b s) = bPinned s"
  by (auto simp add: expandHeader_def jQuery_sap_log_def moveHeaderToTitleArea_def Let_def
      split: option.splits if_splits)

lemma toggleHeaderVisibility_pinned:
  "bPinned s \<Longrightarrow>
     toggleHeaderVisibility e b s
       = Return () (s\<lparr>sap_log := sap_log s @ [(Debug, Header_toggle_aborted_header_is_pinned)]\<rparr>)"
  by (simp add: toggleHeaderVisibility_def jQuery_sap_log_def)

text \<open>
  Claim C1 (as stated): while the header is pinned neither the scroll-driven evaluation
  nor \<^verbatim>\<open>_snapHeader\<close> nor \<^verbatim>\<open>_expandHeader\<close>, on any event path, changes the expanded
  property or the snapped class. \<^verbatim>\<open>_expandHeader\<close> has no guard on the pinned flag.
  Counterexample: a page is rendered, scrolled to offset 200 so that the header snaps,
  and pinned; pressing the title then expands the header and removes the snapped class
  while the page stays pinned.
\<close>

theorem expand_while_pinned:
  "bPinned pinned_snapped_state
   \<and> \<not> getHeaderExpanded pinned_snapped_state
   \<and> titleSnappedClass pinned_snapped_state
   \<and> bPinned (fire tablet_env Ev_titlePress pinned_snapped_state)
   \<and> getHeaderExpanded (fire tablet_env Ev_titlePress pinned_snapped_state)
   \<and> \<not> titleSnappedClass (fire tablet_env Ev_titlePress pinned_snapped_state)
   \<and> getHeaderExpanded (expandHeader False pinned_snapped_state)"
  by (simp add: pinned_snapped_state_def tablet_env_def init_def plain_title_def all_defs)

text \<open>
  Claim C1 (amended): while the header is pinned no snap occurs on any path. The
  scroll-driven evaluation leaves the whole state as it is, \<^verbatim>\<open>_snapHeader\<close> only writes
  a debug line, and the command-triggered toggle keeps the page pinned, never turns the
  expanded property from true to false and never adds the snapped class. Expanding is
  not guarded: the command-triggered toggle can still expand a snapped header.
\<close>

theorem pinned_never_snaps:
  assumes "bPinned s"
  shows "final (toggleHeader e s) = s
     \<and> snapHeader b s = s\<lparr>sap_log := sap_log s @ [(Debug, Aborted_snapping_header_is_pinned)]\<rparr>
     \<and> (getHeaderExpanded s \<longrightarrow> getHeaderExpanded (final (titleExpandCollapseWhenAllowed e s)))
     \<and> (titleSnappedClass (final (titleExpandCollapseWhenAllowed e s)) \<longrightarrow> titleSnappedClass s)
     \<and> bPinned (final (titleExpandCollapseWhenAllowed e s))"
proof -
  have 1: "final (toggleHeader e s) = s"
    using assms by (rule toggleHeader_pinned)
  have 2: "snapHeader b s
             = s\<lparr>sap_log := sap_log s @ [(Debug, Aborted_snapping_header_is_pinned)]\<rparr>"
    using assms by (rule snapHeader_pinned)
  have p: "bPinned (expandHeader x s)" for x
    using assms by (simp add: expandHeader_expanded_mono)
  have 3: "getHeaderExpanded s \<longrightarrow> getHeaderExpanded (final (titleExpandCollapseWhenAllowed e s))"
    using assms p
    by (auto simp add: titleExpandCollapseWhenAllowed_def headerSnapAllowed_def snapHeader_pinned
        toggleHeaderVisibility_pinned jQuery_sap_log_def)
  have 4: "titleSnappedClass (final (titleExpandCollapseWhenAllowed e s)) \<longrightarrow> titleSnappedClass s"
    using assms p expandHeader_expanded_mono(2) [of _ s]
      expandHeader_expanded_mono(2) [of _ "s\<lparr>bExpandingWithAClick := True\<rparr>"]
    by (auto simp add: titleExpandCollapseWhenAllowed_def headerSnapAllowed_def snapHeader_pinned
        toggleHeaderVisibility_pinned jQuery_sap_log_def expandHeader_expanded_mono(3)
        split: if_splits)
  have 5: "bPinned (final (titleExpandCollapseWhenAllowed e s))"
    using assms p
    by (auto simp add: titleExpandCollapseWhenAllowed_def headerSnapAllowed_def snapHeader_pinned
        toggleHeaderVisibility_pinned jQuery_sap_log_def expandHeader_expanded_mono(3)
        split: if_splits)
  from 1 2 3 4 5 show ?thesis by blast
qed

theorem pinned_never_snaps_witness:
  "bPinned pinned_snapped_state
   \<and> final (toggleHeader tablet_env pinned_snapped_state) = pinned_snapped_state
   \<and> snapHeader True pinned_snapped_state
       = pinned_snapped_state\<lparr>sap_log := sap_log pinned_snapped_state
                                 @ [(Debug, Aborted_snapping_header_is_pinned)]\<rparr>
   \<and> bPinned (final (titleExpandCollapseWhenAllowed tablet_env pinned_snapped_state))
   \<and> bPinned pinned_expanded_state
   \<and> getHeaderExpanded pinned_expanded_state
   \<and> getHeaderExpanded (final (titleExpandCollapseWhenAllowed tablet_env pinned_expanded_state))"
proof -
  have a: "bPinned pinned_snapped_state"
    by (simp add: pinned_snapped_state_def tablet_env_def init_def plain_title_def all_defs)
  have b: "bPinned pinned_expanded_state" and c: "getHeaderExpanded pinned_expanded_state"
    by (simp_all add: pinned_expanded_state_def tablet_env_def init_def plain_title_def all_defs)
  from pinned_never_snaps [OF a, of tablet_env True] pinned_never_snaps [OF b, of tablet_env True]
    a b c
  show ?thesis by simp
qed

section \<open>What headerAlwaysExpanded allows\<close>

lemma measure_keeps_expanded:
  "headerAlwaysExpanded s \<or> bPinned s \<Longrightarrow>
     measureScrollBarOffsetHeight e s
       = Return (getTitleAreaHeight e s)
           (jQuery_sap_log Debug
              (Always_expanded_or_pinned_title_area_height (getTitleAreaHeight e s)) s)"
  by (auto simp add: measureScrollBarOffsetHeight_def jQuery_sap_log_def Let_def)

lemma updateScrollBar_keeps_expanded:
  "headerAlwaysExpanded s \<or> bPinned s \<Longrightarrow>
     getHeaderExpanded (final (updateScrollBar e s)) = getHeaderExpanded s"
  by (auto simp add: updateScrollBar_def measure_keeps_expanded and_then_def
      jQuery_sap_delayedCall_def jQuery_sap_log_def Let_def)

lemma updateScrollBar_not_desktop: "\<not> desktop e \<Longrightarrow> updateScrollBar e s = Return () s"
  by (simp add: updateScrollBar_def)

lemma toggleHeader_always_expanded:
  "headerAlwaysExpanded s \<Longrightarrow>
     toggleHeader e s
       = Return ()
           (if \<not> bPinned s \<and> bHeaderInTitleArea s then moveHeaderToContentArea s else s)"
  by (simp add: toggleHeader_def shouldSnap_def shouldExpand_def)

lemma onAfterRendering_keeps_expanded:
  assumes "headerAlwaysExpanded s"
  shows "getHeaderExpanded (final (onAfterRendering e s)) = getHeaderExpanded s"
proof -
  define s1 where "s1 = (if header_exists s
      then jQuery_sap_delayedCall Call_overrideHeaderAlwaysExpanded s else s)"
  define s3 where "s3 = updateMedia (getWidth_own e (cacheDomElements s1)) (cacheDomElements s1)"
  have a: "headerAlwaysExpanded (s3\<lparr>scrollHandlerBound := True\<rparr>)"
    and b: "getHeaderExpanded (s3\<lparr>scrollHandlerBound := True\<rparr>) = getHeaderExpanded s"
    and c: "wrapper_exists s3"
    using assms
    by (simp_all add: s3_def s1_def headerAlwaysExpanded_def updateMedia_def cacheDomElements_def
        jQuery_sap_delayedCall_def)
  have "final (onAfterRendering e s) = final (updateScrollBar e (s3\<lparr>scrollHandlerBound := True\<rparr>))"
    using assms c
    by (simp add: onAfterRendering_def Let_def attachScrollHandler_def and_then_def
        s1_def [symmetric] s3_def [symmetric])
  with updateScrollBar_keeps_expanded [of "s3\<lparr>scrollHandlerBound := True\<rparr>" e] a b
  show ?thesis by simp
qed

lemma onBeforeRendering_keeps_expanded:
  "headerAlwaysExpanded (onBeforeRendering s) = headerAlwaysExpanded s"
  "getHeaderExpanded (onBeforeRendering s) = getHeaderExpanded s"
  by (simp_all add: onBeforeRendering_def headerAlwaysExpanded_def attachPinPressHandler_def
      attachTitlePressHandler_def detachScrollHandler_def)

text \<open>
  Claim C2 (as stated): at every reachable state, if \<^verbatim>\<open>headerAlwaysExpanded\<close> is set and
  the header does not exceed the allowed height, the header is expanded; no operation,
  the command-triggered toggle included, can set \<^verbatim>\<open>headerExpanded\<close> to false. The
  command-triggered toggle has a branch for exactly this condition, which hides the
  header and pulls the content up. Counterexample: the property is set, the page is
  rendered, its callbacks run, and the title is pressed.
\<close>

theorem always_expanded_collapsed_by_title_press:
  "getHeaderAlwaysExpanded (run desktop_env always_expanded_run (init (Some plain_title) True))
   \<and> \<not> headerBiggerThanAllowedHeight
         (run desktop_env always_expanded_run (init (Some plain_title) True))
   \<and> \<not> getHeaderExpanded (run desktop_env always_expanded_run (init (Some plain_title) True))"
  by (simp add: always_expanded_run_def desktop_env_def init_def plain_title_def all_defs)

text \<open>
  Claim C2 (amended): while \<^verbatim>\<open>headerAlwaysExpanded\<close> is set and the header does not
  exceed the allowed height, an expanded header stays expanded under every event except
  the command-triggered toggle, that is, a press on the title or
  \<^verbatim>\<open>setHeaderExpanded(false)\<close>; in particular scrolling never snaps it.
\<close>

theorem always_expanded_only_command_collapses:
  assumes "headerAlwaysExpanded s" and "getHeaderExpanded s"
    and "ev \<noteq> Ev_titlePress" and "ev \<noteq> Ev_setHeaderExpanded False"
  shows "getHeaderExpanded (fire e ev s)"
proof (cases ev)
  case (Ev_setHeaderExpanded b)
  with assms show ?thesis by (cases b) (simp_all add: fire_def dispatch_def setHeaderExpanded_def)
next
  case (Ev_setHeaderAlwaysExpanded b)
  with assms show ?thesis by (simp add: fire_def dispatch_def setHeaderAlwaysExpanded_def Let_def)
next
  case Ev_rendering
  define s1 where
    "s1 = (onBeforeRendering s)\<lparr>invalidated := False, headerDom_exists := header_exists s\<rparr>"
  have a: "headerAlwaysExpanded s1" "getHeaderExpanded s1"
    using assms onBeforeRendering_keeps_expanded [of s]
    by (simp_all add: s1_def headerAlwaysExpanded_def)
  from onAfterRendering_keeps_expanded [OF a(1), of e] a(2) Ev_rendering
  show ?thesis by (simp add: fire_def dispatch_def s1_def)
next
  case Ev_delayedCall
  show ?thesis
  proof (cases "delayedCalls s")
    case Nil
    with Ev_delayedCall assms show ?thesis by (simp add: fire_def dispatch_def)
  next
    case (Cons t ts)
    let ?s1 = "s\<lparr>delayedCalls := ts\<rparr>"
    have a: "headerAlwaysExpanded ?s1" "getHeaderExpanded ?s1"
      using assms by (simp_all add: headerAlwaysExpanded_def)
    have "getHeaderExpanded (final (run_task e t ?s1))"
    proof (cases t)
      case Call_overrideHeaderAlwaysExpanded
      then show ?thesis using a
        by (auto simp add: run_task_def overrideHeaderAlwaysExpanded_def shouldOverrideHeaderAlwaysExpanded_def
            updateScrollBar_not_desktop moveHeaderToContentArea_def)
    next
      case Call_updateScrollBarOffset
      then show ?thesis using a by (simp add: run_task_def updateScrollBarOffset_def)
    next
      case Call_updateFitContainer
      then show ?thesis using a by (simp add: run_task_def updateFitContainer_def)
    next
      case Call_updateScrollBar
      then show ?thesis using a updateScrollBar_keeps_expanded [of ?s1 e] by (simp add: run_task_def)
    qed
    with Ev_delayedCall Cons show ?thesis by (simp add: fire_def dispatch_def)
  qed
next
  case Ev_titlePress
  with assms show ?thesis by simp
next
  case Ev_pinUnpinPress
  let ?s1 = "moveHeaderToTitleArea (s\<lparr>bPinned := True\<rparr>)"
  have b: "bPinned ?s1" "getHeaderExpanded ?s1" using assms by (simp_all add: moveHeaderToTitleArea_def)
  have "getHeaderExpanded (final (updateScrollBar e ?s1))"
    using updateScrollBar_keeps_expanded [of ?s1 e] b by simp
  then have "getHeaderExpanded (final (pin e s))"
    using assms by (cases "updateScrollBar e ?s1") (auto simp add: pin_def and_then_def)
  then have "getHeaderExpanded (final (onPinUnpinButtonPress e s))"
    using assms
    by (cases "pin e s") (auto simp add: onPinUnpinButtonPress_def unPin_def and_then_def restorePinButtonFocus_def Let_def)
  with Ev_pinUnpinPress assms show ?thesis by (simp add: fire_def dispatch_def)
next
  case (Ev_wrapperScroll n)
  let ?s0 = "s\<lparr>wrapperScrollTop := n\<rparr>"
  have a: "headerAlwaysExpanded ?s0" "getHeaderExpanded ?s0"
    using assms by (simp_all add: headerAlwaysExpanded_def)
  have "getHeaderExpanded (final (onWrapperScroll e n ?s0))"
    using a by (auto simp add: onWrapperScroll_def toggleHeader_always_expanded and_then_def
        moveHeaderToContentArea_def Let_def)
  with Ev_wrapperScroll assms show ?thesis by (simp add: fire_def dispatch_def)
next
  case (Ev_scrollBarScroll n)
  let ?s0 = "s\<lparr>scrollBarPosition := n\<rparr>"
  have a: "headerAlwaysExpanded ?s0" "getHeaderExpanded ?s0"
    using assms by (simp_all add: headerAlwaysExpanded_def)
  have "getHeaderExpanded (final (onScrollBarScroll e ?s0))"
    using a by (auto simp add: onScrollBarScroll_def toggleHeader_always_expanded and_then_def
        moveHeaderToContentArea_def Let_def)
  with Ev_scrollBarScroll assms show ?thesis by (simp add: fire_def dispatch_def)
next
  case (Ev_resize h w)
  have "getHeaderExpanded (final (onResize e h w s))"
    using assms updateScrollBar_keeps_expanded [of s e]
    by (cases "updateScrollBar e s") (auto simp add: onResize_def and_then_def updateMedia_def)
  with Ev_resize assms show ?thesis by (simp add: fire_def dispatch_def)
next
  case (Ev_childControlsHeightChange b)
  have "getHeaderExpanded (final (onChildControlsHeightChange e b s))"
    using assms updateScrollBar_keeps_expanded [of s e]
    by (cases "updateScrollBar e s") (auto simp add: onChildControlsHeightChange_def and_then_def)
  with Ev_childControlsHeightChange assms show ?thesis by (simp add: fire_def dispatch_def)
next
  case Ev_childControlAfterRendering
  with assms show ?thesis
    by (simp add: fire_def dispatch_def onChildControlAfterRendering_def jQuery_sap_delayedCall_def)
qed

theorem always_expanded_only_command_collapses_witness:
  "headerAlwaysExpanded always_expanded_state
   \<and> getHeaderExpanded always_expanded_state
   \<and> getHeaderExpanded (fire desktop_env (Ev_wrapperScroll 200) always_expanded_state)
   \<and> getHeaderExpanded (fire desktop_env (Ev_scrollBarScroll 200) always_expanded_state)"
proof -
  have a: "headerAlwaysExpanded always_expanded_state"
    and b: "getHeaderExpanded always_expanded_state"
    by (simp_all add: always_expanded_state_def desktop_env_def init_def plain_title_def all_defs)
  from always_expanded_only_command_collapses [OF a b, of "Ev_wrapperScroll 200" desktop_env]
    always_expanded_only_command_collapses [OF a b, of "Ev_scrollBarScroll 200" desktop_env] a b
  show ?thesis by simp
qed

section \<open>The override of headerAlwaysExpanded\<close>

lemma override_frame_refl [simp]: "override_frame s s"
  by (simp add: override_frame_def)

lemma override_frame_trans: "override_frame s s1 \<Longrightarrow> override_frame s1 s2 \<Longrightarrow> override_frame s s2"
  by (simp add: override_frame_def)

lemma override_frame_and_then:
  assumes "override_frame s (final m)" and "\<And>v s1. override_frame s1 (final (f v s1))"
  shows "override_frame s (final (and_then m f))"
  using assms by (cases m) (auto simp add: and_then_def intro: override_frame_trans)

lemma override_frame_snapHeader: "override_frame s (snapHeader b s)"
  by (simp add: override_frame_def snapHeader_def jQuery_sap_log_def moveHeaderToContentArea_def
      Let_def split: option.splits)

lemma override_frame_expandHeader: "override_frame s (expandHeader b s)"
  by (simp add: override_frame_def expandHeader_def jQuery_sap_log_def moveHeaderToTitleArea_def
      Let_def split: option.splits)

lemma override_frame_moveHeader:
  "override_frame s (moveHeaderToContentArea s)" "override_frame s (moveHeaderToTitleArea s)"
  by (simp_all add: override_frame_def moveHeaderToContentArea_def moveHeaderToTitleArea_def)

lemma override_frame_log: "override_frame s (jQuery_sap_log l m s)"
  by (simp add: override_frame_def jQuery_sap_log_def)

lemma override_frame_measure: "override_frame s (final (measureScrollBarOffsetHeight e s))"
proof -
  have "override_frame s (jQuery_sap_log l m (expandHeader b (snapHeader b' s)))" for l m b b'
    by (blast intro: override_frame_trans override_frame_snapHeader override_frame_expandHeader
        override_frame_log)
  moreover have "override_frame s (jQuery_sap_log l m (snapHeader b' s))" for l m b'
    by (blast intro: override_frame_trans override_frame_snapHeader override_frame_log)
  ultimately show ?thesis
    by (auto simp add: measureScrollBarOffsetHeight_def Let_def override_frame_log
        override_frame_snapHeader split: option.splits)
qed

lemma override_frame_updateScrollBar: "override_frame s (final (updateScrollBar e s))"
proof (cases "measureScrollBarOffsetHeight e s")
  case (Return h s1)
  with override_frame_measure [of s e] show ?thesis
    by (auto simp add: updateScrollBar_def and_then_def Let_def jQuery_sap_delayedCall_def
        override_frame_def)
next
  case (Throw s1)
  with override_frame_measure [of s e] show ?thesis
    by (auto simp add: updateScrollBar_def and_then_def Let_def)
qed

lemma override_frame_toggleHeader: "override_frame s (final (toggleHeader e s))"
  by (auto simp add: toggleHeader_def override_frame_snapHeader override_frame_expandHeader
      override_frame_moveHeader split: option.splits bool.splits)

lemma override_frame_toggleHeaderVisibility:
  "override_frame s (final (toggleHeaderVisibility e b s))"
proof (cases "bPinned s")
  case True
  then show ?thesis by (simp add: toggleHeaderVisibility_def override_frame_log)
next
  case False
  define s1 where "s1 = (case getTitle s of None \<Rightarrow> s
     | Some t \<Rightarrow> s\<lparr>getTitle := Some (setShowSnapContent (\<not> getHeaderExpanded s)
                                      (setShowExpandContent (getHeaderExpanded s) t))\<rparr>)"
  define s2 where "s2 = (if headerDom_exists s1 then s1\<lparr>headerHiddenClass := \<not> b\<rparr> else s1)"
  have a: "override_frame s s1"
    by (simp add: s1_def override_frame_def split: option.splits)
  then have "override_frame s s2"
    by (simp add: s2_def override_frame_def)
  then have "override_frame s (final (updateScrollBar e s2))"
    by (rule override_frame_trans [OF _ override_frame_updateScrollBar])
  with False a show ?thesis
    unfolding s2_def
    by (auto simp add: toggleHeaderVisibility_def Let_def s1_def [symmetric] split: if_splits)
qed

lemma override_frame_titleExpandCollapse:
  "override_frame s (final (titleExpandCollapseWhenAllowed e s))"
proof -
  have 1: "override_frame s (final (toggleHeaderVisibility e b (expandHeader b' s)))" for b b'
    by (blast intro: override_frame_trans override_frame_expandHeader
        override_frame_toggleHeaderVisibility)
  have 2: "override_frame s (final (toggleHeaderVisibility e b (snapHeader b' s)))" for b b'
    by (blast intro: override_frame_trans override_frame_snapHeader
        override_frame_toggleHeaderVisibility)
  have 3: "override_frame s (expandHeader True (s\<lparr>bExpandingWithAClick := True\<rparr>))"
    using override_frame_expandHeader [of "s\<lparr>bExpandingWithAClick := True\<rparr>" True]
    by (simp add: override_frame_def)
  have 4: "override_frame s (scrollToSnapHeader e s)"
    by (simp add: override_frame_def scrollToSnapHeader_def setScrollPosition_def Let_def)
  show ?thesis
    by (auto simp add: titleExpandCollapseWhenAllowed_def 1 2 3 4 override_frame_log
        override_frame_snapHeader split: option.splits bool.splits)
qed

lemma override_frame_unPin: "override_frame s (final (unPin s))"
  by (simp add: unPin_def Let_def override_frame_def)

lemma override_frame_pin: "override_frame s (final (pin e s))"
proof -
  let ?s1 = "moveHeaderToTitleArea (s\<lparr>bPinned := True\<rparr>)"
  have "override_frame s ?s1"
    by (simp add: override_frame_def moveHeaderToTitleArea_def)
  then have "override_frame s (final (updateScrollBar e ?s1))"
    by (blast intro: override_frame_trans override_frame_updateScrollBar)
  then show ?thesis
    by (cases "updateScrollBar e ?s1") (auto simp add: pin_def and_then_def)
qed

lemma override_frame_onPinUnpinButtonPress:
  "override_frame s (final (onPinUnpinButtonPress e s))"
  using override_frame_pin [of s e] override_frame_unPin [of s]
  by (cases "pin e s") (auto simp add: onPinUnpinButtonPress_def and_then_def restorePinButtonFocus_def)

lemma override_frame_onResize: "override_frame s (final (onResize e h w s))"
  unfolding onResize_def
proof (rule override_frame_and_then)
  show "override_frame s (final (if \<not> headerAlwaysExpanded s \<and> header_exists s
          then if headerBiggerThanAllowedToPin e (Some h) s \<or> phone e then unPin s else Return () s
          else Return () s))"
    by (simp add: override_frame_unPin)
next
  fix v s1
  show "override_frame s1 (final (and_then (updateScrollBar e s1) (\<lambda>u s2. Return () (updateMedia w s2))))"
  proof (rule override_frame_and_then)
    show "override_frame s1 (final (updateScrollBar e s1))" by (rule override_frame_updateScrollBar)
  next
    fix v s2 show "override_frame s2 (final (Return () (updateMedia w s2)))"
      by (simp add: updateMedia_def override_frame_def)
  qed
qed

lemma override_frame_onChildControlsHeightChange:
  "override_frame s (final (onChildControlsHeightChange e b s))"
  unfolding onChildControlsHeightChange_def
  by (rule override_frame_and_then)
     (simp_all add: override_frame_updateScrollBar, simp add: override_frame_def)

lemma override_frame_onWrapperScroll: "override_frame s (final (onWrapperScroll e n s))"
  unfolding onWrapperScroll_def
  by (rule override_frame_and_then)
     (simp_all add: override_frame_toggleHeader Let_def, simp add: override_frame_def)

lemma override_frame_onScrollBarScroll: "override_frame s (final (onScrollBarScroll e s))"
  unfolding onScrollBarScroll_def
  by (rule override_frame_and_then)
     (simp_all add: override_frame_toggleHeader Let_def, simp add: override_frame_def)


lemma override_frame_onBeforeRendering: "override_frame s (onBeforeRendering s)"
  by (simp add: override_frame_def onBeforeRendering_def attachPinPressHandler_def
      attachTitlePressHandler_def detachScrollHandler_def)

lemma override_frame_onAfterRendering:
  assumes "headerBiggerThanAllowedHeight s"
  shows "override_frame s (final (onAfterRendering e s))"
proof -
  define s3 where "s3 = updateMedia (getWidth_own e (cacheDomElements s)) (cacheDomElements s)"
  have "override_frame s (s3\<lparr>scrollHandlerBound := True\<rparr>)"
    by (simp add: s3_def override_frame_def updateMedia_def cacheDomElements_def)
  then have "override_frame s (final (updateScrollBar e (s3\<lparr>scrollHandlerBound := True\<rparr>)))"
    by (rule override_frame_trans [OF _ override_frame_updateScrollBar])
  moreover have "wrapper_exists s3"
    by (simp add: s3_def updateMedia_def cacheDomElements_def)
  ultimately show ?thesis
    using assms
    by (simp add: onAfterRendering_def headerAlwaysExpanded_def Let_def attachScrollHandler_def
        and_then_def s3_def [symmetric])
qed

lemma override_frame_fire:
  assumes "headerBiggerThanAllowedHeight s"
    and "Call_overrideHeaderAlwaysExpanded \<notin> set (delayedCalls s)"
  shows "override_frame s (fire e ev s)"
proof (cases ev)
  case (Ev_setHeaderExpanded b)
  then show ?thesis
    by (simp add: fire_def dispatch_def setHeaderExpanded_def override_frame_titleExpandCollapse)
next
  case (Ev_setHeaderAlwaysExpanded b)
  then show ?thesis
    by (simp add: fire_def dispatch_def setHeaderAlwaysExpanded_def Let_def override_frame_def)
next
  case Ev_rendering
  define s1 where "s1 = (onBeforeRendering s)\<lparr>invalidated := False, headerDom_exists := header_exists s\<rparr>"
  have a: "override_frame s s1"
    using override_frame_onBeforeRendering [of s] by (simp add: s1_def override_frame_def)
  then have "headerBiggerThanAllowedHeight s1"
    using assms by (simp add: override_frame_def)
  then have "override_frame s1 (final (onAfterRendering e s1))"
    by (rule override_frame_onAfterRendering)
  with a have "override_frame s (final (onAfterRendering e s1))"
    by (rule override_frame_trans)
  with Ev_rendering show ?thesis by (simp add: fire_def dispatch_def s1_def)
next
  case Ev_delayedCall
  show ?thesis
  proof (cases "delayedCalls s")
    case Nil
    with Ev_delayedCall show ?thesis by (simp add: fire_def dispatch_def)
  next
    case (Cons t ts)
    have a: "override_frame s (s\<lparr>delayedCalls := ts\<rparr>)"
      using Cons by (simp add: override_frame_def)
    have t: "t \<noteq> Call_overrideHeaderAlwaysExpanded"
      using assms Cons by auto
    have "override_frame (s\<lparr>delayedCalls := ts\<rparr>) (final (run_task e t (s\<lparr>delayedCalls := ts\<rparr>)))"
      using t
      by (cases t)
         (simp_all add: run_task_def override_frame_updateScrollBar updateScrollBarOffset_def
           updateFitContainer_def override_frame_def [of _ "_\<lparr>fitContainerClass := _\<rparr>"]
           override_frame_def [of _ "_\<lparr>titleAreaScrollBarOffset := _\<rparr>"])
    with a have "override_frame s (final (run_task e t (s\<lparr>delayedCalls := ts\<rparr>)))"
      by (rule override_frame_trans)
    with Ev_delayedCall Cons show ?thesis by (simp add: fire_def dispatch_def)
  qed
next
  case Ev_titlePress
  then show ?thesis by (simp add: fire_def dispatch_def override_frame_titleExpandCollapse)
next
  case Ev_pinUnpinPress
  then show ?thesis by (simp add: fire_def dispatch_def override_frame_onPinUnpinButtonPress)
next
  case (Ev_wrapperScroll n)
  have "override_frame s (s\<lparr>wrapperScrollTop := n\<rparr>)" by (simp add: override_frame_def)
  then have "override_frame s (final (onWrapperScroll e n (s\<lparr>wrapperScrollTop := n\<rparr>)))"
    by (rule override_frame_trans [OF _ override_frame_onWrapperScroll])
  with Ev_wrapperScroll show ?thesis by (simp add: fire_def dispatch_def)
next
  case (Ev_scrollBarScroll n)
  have "override_frame s (s\<lparr>scrollBarPosition := n\<rparr>)" by (simp add: override_frame_def)
  then have "override_frame s (final (onScrollBarScroll e (s\<lparr>scrollBarPosition := n\<rparr>)))"
    by (rule override_frame_trans [OF _ override_frame_onScrollBarScroll])
  with Ev_scrollBarScroll show ?thesis by (simp add: fire_def dispatch_def)
next
  case (Ev_resize h w)
  then show ?thesis by (simp add: fire_def dispatch_def override_frame_onResize)
next
  case (Ev_childControlsHeightChange b)
  then show ?thesis by (simp add: fire_def dispatch_def override_frame_onChildControlsHeightChange)
next
  case Ev_childControlAfterRendering
  then show ?thesis
    by (simp add: fire_def dispatch_def onChildControlAfterRendering_def jQuery_sap_delayedCall_def
        override_frame_def)
qed

lemma override_settled_run:
  "headerBiggerThanAllowedHeight s \<Longrightarrow>
   Call_overrideHeaderAlwaysExpanded \<notin> set (delayedCalls s) \<Longrightarrow>
   headerBiggerThanAllowedHeight (run e evs s)
   \<and> Call_overrideHeaderAlwaysExpanded \<notin> set (delayedCalls (run e evs s))"
proof (induction evs arbitrary: s)
  case Nil
  then show ?case by simp
next
  case (Cons ev evs)
  from override_frame_fire [OF Cons.prems, of e ev] Cons.prems
  have "headerBiggerThanAllowedHeight (fire e ev s)"
    and "Call_overrideHeaderAlwaysExpanded \<notin> set (delayedCalls (fire e ev s))"
    by (auto simp add: override_frame_def)
  then show ?case using Cons.IH by simp
qed

text \<open>
  While the flag is true and no override check is waiting in the timer queue, every
  event keeps both: a rendering schedules a check only while
  \<^verbatim>\<open>_headerAlwaysExpanded()\<close> holds, which the flag excludes, and nothing but the check
  assigns the flag.
\<close>

lemma override_settled_stays:
  assumes "headerBiggerThanAllowedHeight s"
    and "Call_overrideHeaderAlwaysExpanded \<notin> set (delayedCalls s)"
  shows "headerBiggerThanAllowedHeight (run e evs s)"
  using override_settled_run [OF assms, of e evs] by simp

text \<open>
  Claim C3: the override is one-way; once the override check has set
  \<^verbatim>\<open>_headerBiggerThanAllowedHeight\<close> to true, the flag stays true for the lifetime of
  the control, and no later call of \<^verbatim>\<open>_overrideHeaderAlwaysExpanded\<close> resets it. The
  code does not keep this. On a tablet with \<^verbatim>\<open>headerAlwaysExpanded\<close> set and title and
  header together 300 pixels high in a page of 400, the page is rendered twice before
  the timer queue runs, so two checks are pending. The first sets the flag. At the
  second the header is still too tall to be fixed and the property is still set, but
  \<^verbatim>\<open>_shouldOverrideHeaderAlwaysExpanded\<close> reads \<^verbatim>\<open>_headerAlwaysExpanded()\<close>, which is false
  because of the flag itself, and the check clears the flag: afterwards
  \<^verbatim>\<open>_headerAlwaysExpanded()\<close> holds again although the header is too tall.
\<close>

theorem override_recheck_clears_flag:
  "headerBiggerThanAllowedHeight overridden_state
   \<and> delayedCalls overridden_state = [Call_overrideHeaderAlwaysExpanded]
   \<and> \<not> desktop tall_tablet_env
   \<and> getHeaderAlwaysExpanded overridden_state
   \<and> getEntireHeaderHeight tall_tablet_env overridden_state = 300
   \<and> getOwnHeight tall_tablet_env overridden_state = 400
   \<and> headerBiggerThanAllowedToBeFixed tall_tablet_env overridden_state
   \<and> \<not> headerBiggerThanAllowedHeight (fire tall_tablet_env Ev_delayedCall overridden_state)
   \<and> headerBiggerThanAllowedToBeFixed tall_tablet_env
         (fire tall_tablet_env Ev_delayedCall overridden_state)
   \<and> headerAlwaysExpanded (fire tall_tablet_env Ev_delayedCall overridden_state)"
  by (simp add: overridden_state_def tall_tablet_env_def init_def plain_title_def all_defs)

section \<open>Aborted snap and expand attempts\<close>

lemma quiet_refl [simp]: "quiet s s"
  by (simp add: quiet_def)

























lemma updateScrollBar_unrendered: "\<not> wrapper_exists s \<Longrightarrow> updateScrollBar e s = Return () s"
  by (simp add: updateScrollBar_def)


















section \<open>The command-triggered toggle with a header taller than the page\<close>

text \<open>
  Claim C5: when the title and the header together are higher than the control, the
  command-triggered toggle logs a warning and returns; the state is the state before the
  call with the warning appended to the log, so the expanded property, the pinned flag,
  the place of the header, the scroll positions and the style classes are unchanged.
\<close>

theorem titleExpandCollapse_too_tall:
  "getEntireHeaderHeight e s > getOwnHeight e s \<Longrightarrow>
     titleExpandCollapseWhenAllowed e s
       = Return ()
           (s\<lparr>sap_log := sap_log s @ [(Warning, Couldnt_expand_header_not_enough_space)]\<rparr>)"
  by (simp add: titleExpandCollapseWhenAllowed_def headerBiggerThanAllowedToExpandWithACommand_def
      jQuery_sap_log_def)

theorem titleExpandCollapse_too_tall_witness:
  "getEntireHeaderHeight tall_header_env rendered_tall_state = 548
   \<and> getOwnHeight tall_header_env rendered_tall_state = 400
   \<and> titleExpandCollapseWhenAllowed tall_header_env rendered_tall_state
       = Return () (rendered_tall_state\<lparr>sap_log := sap_log rendered_tall_state
                      @ [(Warning, Couldnt_expand_header_not_enough_space)]\<rparr>)"
proof -
  have w: "wrapper_exists rendered_tall_state" "getTitle rendered_tall_state \<noteq> None"
    "header_exists rendered_tall_state"
    by (simp_all add: rendered_tall_state_def tall_header_env_def init_def plain_title_def
        all_defs)
  have h: "getEntireHeaderHeight tall_header_env rendered_tall_state = 548"
    "getOwnHeight tall_header_env rendered_tall_state = 400"
    using w
    by (auto simp add: getEntireHeaderHeight_def getOwnHeight_def tall_header_env_def
        once_rendered_def page_geometry_def)
  then have "getEntireHeaderHeight tall_header_env rendered_tall_state
               > getOwnHeight tall_header_env rendered_tall_state"
    by simp
  from titleExpandCollapse_too_tall [OF this] h show ?thesis by simp
qed

section \<open>The two scroll handlers\<close>

lemma toggleHeader_scroll_flags:
  "allowInnerDiv (final (toggleHeader e s)) = allowInnerDiv s"
  "allowCustomScroll (final (toggleHeader e s)) = allowCustomScroll s"
  by (auto simp add: toggleHeader_def snapHeader_def expandHeader_def jQuery_sap_log_def
      moveHeaderToContentArea_def moveHeaderToTitleArea_def Let_def
      split: option.splits bool.splits)

lemma toggleHeader_desktop_returns: "desktop e \<Longrightarrow> returns (toggleHeader e s)"
  by (auto simp add: toggleHeader_def shouldSnap_def shouldExpand_def getScrollPosition_def
      split: option.splits bool.splits)

text \<open>
  Claim C6 (as stated): in any interleaving of wrapper and scroll bar scroll events at
  most one of \<^verbatim>\<open>allowInnerDiv\<close> and \<^verbatim>\<open>allowCustomScroll\<close> is armed, and an armed flag
  is consumed on its first use by the opposite handler. The wrapper's handler consumes
  \<^verbatim>\<open>allowCustomScroll\<close> only when the wrapper's \<^verbatim>\<open>scrollTop\<close> is greater than 0.
  Counterexample: the scroll bar is dragged to 50 and back to 0; the wrapper's echo at
  offset 0 arms \<^verbatim>\<open>allowInnerDiv\<close> while \<^verbatim>\<open>allowCustomScroll\<close> is still armed.
\<close>

theorem both_scroll_flags_armed:
  "allowInnerDiv (run desktop_env echo_run (init (Some plain_title) True))
   \<and> allowCustomScroll (run desktop_env echo_run (init (Some plain_title) True))"
  by (simp add: echo_run_def desktop_env_def init_def plain_title_def all_defs)

text \<open>
  Claim C6 (amended): on a desktop the scroll bar's handler consumes an armed
  \<^verbatim>\<open>allowInnerDiv\<close> and otherwise arms \<^verbatim>\<open>allowCustomScroll\<close>; the wrapper's handler
  consumes an armed \<^verbatim>\<open>allowCustomScroll\<close> when the wrapper's \<^verbatim>\<open>scrollTop\<close> is greater
  than 0 and otherwise arms \<^verbatim>\<open>allowInnerDiv\<close> and leaves \<^verbatim>\<open>allowCustomScroll\<close> as it
  is, so that at \<^verbatim>\<open>scrollTop\<close> 0 both flags can be armed together. Off the desktop the
  wrapper's handler touches neither flag.
\<close>

theorem scroll_flags_one_shot:
  "(desktop e \<and> allowInnerDiv s \<longrightarrow>
      \<not> allowInnerDiv (final (onScrollBarScroll e s))
      \<and> allowCustomScroll (final (onScrollBarScroll e s)) = allowCustomScroll s)
   \<and> (desktop e \<and> \<not> allowInnerDiv s \<longrightarrow>
      allowCustomScroll (final (onScrollBarScroll e s))
      \<and> \<not> allowInnerDiv (final (onScrollBarScroll e s)))
   \<and> (desktop e \<and> allowCustomScroll s \<and> 0 < n \<longrightarrow>
      \<not> allowCustomScroll (final (onWrapperScroll e n s))
      \<and> allowInnerDiv (final (onWrapperScroll e n s)) = allowInnerDiv s)
   \<and> (desktop e \<and> \<not> (allowCustomScroll s \<and> 0 < n) \<longrightarrow>
      allowInnerDiv (final (onWrapperScroll e n s))
      \<and> allowCustomScroll (final (onWrapperScroll e n s)) = allowCustomScroll s)
   \<and> (\<not> desktop e \<longrightarrow>
      allowInnerDiv (final (onWrapperScroll e n s)) = allowInnerDiv s
      \<and> allowCustomScroll (final (onWrapperScroll e n s)) = allowCustomScroll s)"
proof -
  have sb: "desktop e \<Longrightarrow> final (onScrollBarScroll e s) =
      (let s1 = final (toggleHeader e s) in
       if allowInnerDiv s1 then s1\<lparr>allowInnerDiv := False\<rparr>
       else if wrapper_exists s1 then s1\<lparr>allowCustomScroll := True, wrapperScrollTop := scrollBarPosition s1\<rparr>
       else s1\<lparr>allowCustomScroll := True\<rparr>)"
    using toggleHeader_desktop_returns [of e s]
    by (cases "toggleHeader e s") (simp_all add: onScrollBarScroll_def and_then_def Let_def)
  have ws: "desktop e \<Longrightarrow> final (onWrapperScroll e n s) =
      (let s1 = (if \<not> bExpandingWithAClick s then final (toggleHeader e s) else s) in
       if allowCustomScroll s1 \<and> 0 < n then s1\<lparr>allowCustomScroll := False\<rparr>
       else s1\<lparr>allowInnerDiv := True, scrollBarPosition := n,
               withScrollClass := needsVerticalScrollBar e (s1\<lparr>allowInnerDiv := True, scrollBarPosition := n\<rparr>)\<rparr>)"
    using toggleHeader_desktop_returns [of e s]
    by (cases "toggleHeader e s") (simp_all add: onWrapperScroll_def and_then_def Let_def)
  have wn: "\<not> desktop e \<Longrightarrow> final (onWrapperScroll e n s) = final (toggleHeader e s)"
    by (cases "toggleHeader e s") (simp_all add: onWrapperScroll_def and_then_def)
  show ?thesis
    using toggleHeader_scroll_flags [of e s]
    by (auto simp add: sb ws wn Let_def)
qed

theorem scroll_flags_one_shot_witness:
  "desktop desktop_env
   \<and> allowInnerDiv armed_inner_state
   \<and> \<not> allowInnerDiv (final (onScrollBarScroll desktop_env armed_inner_state))
   \<and> \<not> allowInnerDiv armed_custom_state
   \<and> allowCustomScroll armed_custom_state
   \<and> \<not> allowCustomScroll (final (onWrapperScroll desktop_env 50 armed_custom_state))
   \<and> allowInnerDiv (final (onWrapperScroll desktop_env 0 armed_custom_state))
   \<and> allowCustomScroll (final (onWrapperScroll desktop_env 0 armed_custom_state))
   \<and> allowCustomScroll (final (onScrollBarScroll desktop_env armed_custom_state))
   \<and> \<not> desktop tablet_env
   \<and> \<not> allowInnerDiv (final (onWrapperScroll tablet_env 50 unrendered_state))"
proof -
  have a: "allowInnerDiv armed_inner_state"
    by (simp add: armed_inner_state_def desktop_env_def init_def plain_title_def all_defs)
  have b: "\<not> allowInnerDiv armed_custom_state" "allowCustomScroll armed_custom_state"
    by (simp_all add: armed_custom_state_def desktop_env_def init_def plain_title_def all_defs)
  have c: "desktop desktop_env" "\<not> desktop tablet_env" "\<not> allowInnerDiv unrendered_state"
    by (simp_all add: desktop_env_def tablet_env_def unrendered_state_def init_def)
  from scroll_flags_one_shot [of desktop_env armed_inner_state 0]
    scroll_flags_one_shot [of desktop_env armed_custom_state 50]
    scroll_flags_one_shot [of desktop_env armed_custom_state 0]
    scroll_flags_one_shot [of tablet_env unrendered_state 50] a b c
  show ?thesis by simp
qed

section \<open>Snapping on scroll\<close>

text \<open>
  Claim C8: with the header expanded, not pinned, \<^verbatim>\<open>headerAlwaysExpanded\<close> false and the
  title area present, the scroll-driven evaluation at the scroll offset
  \<^verbatim>\<open>snapHeight + 1\<close> snaps the header: the expanded property becomes false and the title
  area gets the snapped class.
\<close>

theorem toggleHeader_snaps_past_snapping_height:
  assumes "getHeaderExpanded s" and "\<not> bPinned s" and "\<not> getHeaderAlwaysExpanded s"
    and "titleArea_exists s"
    and "getScrollPosition e s = Some (getSnappingHeight e s + 1)"
  shows "toggleHeader e s = Return () (snapHeader True s)
         \<and> getHeaderExpanded (snapHeader True s) = False
         \<and> titleSnappedClass (snapHeader True s) = True"
  using assms
  by (simp add: toggleHeader_def shouldSnap_def headerAlwaysExpanded_def snapHeader_def
      jQuery_sap_log_def moveHeaderToContentArea_def Let_def split: option.splits)

theorem toggleHeader_snaps_past_snapping_height_witness:
  "getHeaderExpanded scrolled_state \<and> \<not> bPinned scrolled_state
   \<and> \<not> getHeaderAlwaysExpanded scrolled_state \<and> titleArea_exists scrolled_state
   \<and> getSnappingHeight tablet_env scrolled_state = 100
   \<and> getScrollPosition tablet_env scrolled_state = Some 101
   \<and> toggleHeader tablet_env scrolled_state = Return () (snapHeader True scrolled_state)
   \<and> getHeaderExpanded (snapHeader True scrolled_state) = False
   \<and> titleSnappedClass (snapHeader True scrolled_state) = True"
proof -
  have a: "getHeaderExpanded scrolled_state" "\<not> bPinned scrolled_state"
    "\<not> getHeaderAlwaysExpanded scrolled_state" "titleArea_exists scrolled_state"
    and h: "getSnappingHeight tablet_env scrolled_state = 100"
    and p: "getScrollPosition tablet_env scrolled_state = Some 101"
    by (simp_all add: scrolled_state_def tablet_env_def init_def plain_title_def all_defs)
  from p h have "getScrollPosition tablet_env scrolled_state
                   = Some (getSnappingHeight tablet_env scrolled_state + 1)"
    by simp
  from toggleHeader_snaps_past_snapping_height [OF a this] a h p show ?thesis by simp
qed

section \<open>The maximum scroll position\<close>

text \<open>
  Claim C7 (as stated): the maximum scroll position is the wrapper's scroll height minus
  the visible height, clamped at 0, so it is never negative. The source subtracts
  \<^verbatim>\<open>Math.ceil\<close> of the bounding rectangle's height from \<^verbatim>\<open>scrollHeight\<close> and returns
  the difference as it is. Counterexample: after the first rendering of a page whose
  content fits a wrapper 252.4 pixels high (scroll height 252), the result is -1.
\<close>

theorem getMaxScrollPosition_negative:
  "getMaxScrollPosition fractional_env
     (run fractional_env [Ev_rendering] (init (Some plain_title) True)) = - 1"
  by (simp add: fractional_env_def init_def rendering_defs getMaxScrollPosition_def)

text \<open>
  Claim C7 (amended): without a cached wrapper the maximum scroll position is 0; with one
  it is the scroll height minus the rounded-up height of the wrapper, with no clamp, and
  it is non-negative exactly when the wrapper's height does not exceed its scroll height.
\<close>

theorem getMaxScrollPosition_unclamped:
  "(\<not> wrapper_exists s \<longrightarrow> getMaxScrollPosition e s = 0)
   \<and> (wrapper_exists s \<longrightarrow>
        getMaxScrollPosition e s
          = wrapperScrollHeight (layout e s) - \<lceil>wrapperRectHeight (layout e s)\<rceil>
        \<and> (0 \<le> getMaxScrollPosition e s
             \<longleftrightarrow> wrapperRectHeight (layout e s) \<le> real_of_int (wrapperScrollHeight (layout e s))))"
  by (simp add: getMaxScrollPosition_def ceiling_le_iff)

theorem getMaxScrollPosition_unclamped_witness:
  "\<not> wrapper_exists (init None False)
   \<and> getMaxScrollPosition fractional_env (init None False) = 0
   \<and> wrapper_exists (init None False\<lparr>wrapper_exists := True\<rparr>)
   \<and> getMaxScrollPosition fractional_env (init None False\<lparr>wrapper_exists := True\<rparr>)
       = 252 - \<lceil>252.4 :: real\<rceil>
   \<and> \<not> 0 \<le> getMaxScrollPosition fractional_env (init None False\<lparr>wrapper_exists := True\<rparr>)"
  using getMaxScrollPosition_unclamped [of "init None False" fractional_env]
    getMaxScrollPosition_unclamped [of "init None False\<lparr>wrapper_exists := True\<rparr>" fractional_env]
  by (simp add: init_def fractional_env_def once_rendered_def page_geometry_def)

section \<open>Unpinning\<close>

text \<open>
  Claim C9: \<^verbatim>\<open>_unPin\<close> clears the pinned flag when it is set and does nothing when it is
  not; in both cases every other component of the state (the place of the header, the
  expanded property, the style classes) is as before. Where the header is missing the
  notification of the pin button throws after the flag is cleared; the state reached is
  the same.
\<close>

theorem unPin_frame:
  "final (unPin s) = s\<lparr>bPinned := False\<rparr> \<and> (\<not> bPinned s \<longrightarrow> unPin s = Return () s)"
  by (simp add: unPin_def Let_def)

theorem unPin_frame_witness:
  "\<not> bPinned (init None True) \<and> unPin (init None True) = Return () (init None True)"
  using unPin_frame [of "init None True"]
  by (simp add: init_def)

section \<open>Setting headerAlwaysExpanded\<close>

text \<open>
  Claim C10: after \<^verbatim>\<open>setHeaderAlwaysExpanded(true)\<close> the property \<^verbatim>\<open>headerExpanded\<close> is
  true, whatever the state before the call.
\<close>

theorem setHeaderAlwaysExpanded_true_expands:
  "getHeaderExpanded (setHeaderAlwaysExpanded True s) = True
   \<and> getHeaderExpanded (fire e (Ev_setHeaderAlwaysExpanded True) s) = True"
  by (simp add: setHeaderAlwaysExpanded_def fire_def dispatch_def)

end
